theory Spec2Isabelle
  imports Main
begin

section \<open>JavaScript values and strings\<close>

text \<open>
  A JavaScript string is modelled by the list of bytes of its UTF-8 encoding
  (\<^typ>\<open>string\<close>).  Both \<open>encodeURIComponent\<close> and the serializer of
  \<open>URLSearchParams\<close> first encode a string as UTF-8 and then work byte by byte, so
  nothing is lost for well-formed strings (a lone surrogate, on which
  \<open>encodeURIComponent\<close> raises, has no UTF-8 form and is not represented).
  Numbers are the integer-valued ones; \<open>NaN\<close>, \<open>-0\<close> and fractions are not
  represented.
\<close>

datatype HttpMethod = GET | POST | PUT | DELETE | PATCH | HEAD | OPTIONS

text \<open>The values a query parameter may hold:
  \<open>string | number | boolean | null | undefined\<close>.\<close>

datatype qval = QStr string | QNum int | QBool bool | QNull | QUndefined

text \<open>Decimal digits of a natural number, as \<open>String(n)\<close> prints them.\<close>

fun showNat :: "nat \<Rightarrow> string" where
  "showNat n =
     (if n < 10 then [char_of (48 + n)]
      else showNat (n div 10) @ [char_of (48 + n mod 10)])"

declare showNat.simps [simp del]

definition showInt :: "int \<Rightarrow> string" where
  "showInt i = (if i < 0 then CHR ''-'' # showNat (nat (- i)) else showNat (nat i))"

text \<open>\<open>String(value)\<close> on a query-parameter value.\<close>

fun String :: "qval \<Rightarrow> string" where
  "String (QStr s) = s"
| "String (QNum n) = showInt n"
| "String (QBool b) = (if b then ''true'' else ''false'')"
| "String QNull = ''null''"
| "String QUndefined = ''undefined''"

section \<open>Percent-encoding\<close>

definition isAlnum :: "char \<Rightarrow> bool" where
  "isAlnum c =
     (let n = (of_char c :: nat)
      in (48 \<le> n \<and> n \<le> 57) \<or> (65 \<le> n \<and> n \<le> 90) \<or> (97 \<le> n \<and> n \<le> 122))"

definition hexDigit :: "nat \<Rightarrow> char" where
  "hexDigit n = (if n < 10 then char_of (48 + n) else char_of (55 + n))"

text \<open>A byte as \<open>%XX\<close>, with upper-case hexadecimal digits.\<close>

definition percent :: "char \<Rightarrow> string" where
  "percent c =
     (let n = (of_char c :: nat) in [CHR ''%'', hexDigit (n div 16), hexDigit (n mod 16)])"

text \<open>
  \<open>encodeURIComponent\<close>: every byte is escaped but the letters, the digits and
  \<open>- _ . ! ~ * ' ( )\<close>.
\<close>

definition uriUnreserved :: "char \<Rightarrow> bool" where
  "uriUnreserved c = (isAlnum c \<or> c \<in> set ''-_.!~*'()'')"

definition encodeURIComponent :: "string \<Rightarrow> string" where
  "encodeURIComponent s = concat (map (\<lambda>c. if uriUnreserved c then [c] else percent c) s)"

text \<open>
  The \<open>application/x-www-form-urlencoded\<close> serializer that \<open>URLSearchParams\<close>
  applies to every name and value of its list when the query of its URL is
  rewritten: a space becomes \<open>+\<close>, the letters, the digits and \<open>* - . _\<close>
  stay, every other byte is escaped.
\<close>

definition formByte :: "char \<Rightarrow> string" where
  "formByte c =
     (if c = CHR '' '' then ''+''
      else if isAlnum c \<or> c \<in> set ''*-._'' then [c]
      else percent c)"

definition formEncode :: "string \<Rightarrow> string" where
  "formEncode s = concat (map formByte s)"

fun joinWith :: "string \<Rightarrow> string list \<Rightarrow> string" where
  "joinWith sep [] = []"
| "joinWith sep [x] = x"
| "joinWith sep (x # y # ys) = x @ sep @ joinWith sep (y # ys)"

definition formSerialize :: "(string \<times> string) list \<Rightarrow> string" where
  "formSerialize l = joinWith ''&'' (map (\<lambda>(k, v). formEncode k @ ''='' @ formEncode v) l)"

section \<open>The URL object\<close>

text \<open>
  The platform's \<open>URL\<close> object, as far as \<open>buildUrl\<close> uses it: the serialization
  of everything up to and including the path, the query (\<open>None\<close> when the URL has
  none), the list its \<open>searchParams\<close> object holds, and the fragment.
\<close>

record URL =
  beforeQuery :: string
  query :: "string option"
  searchParams :: "(string \<times> string) list"
  fragment :: "string option"

text \<open>\<open>url.searchParams.append(name, value)\<close>: the pair joins the list and the
  query of the URL becomes the serialization of the whole list.\<close>

definition searchParams_append :: "string \<Rightarrow> string \<Rightarrow> URL \<Rightarrow> URL" where
  "searchParams_append name val url =
     (let l = searchParams url @ [(name, val)];
          s = formSerialize l
      in url\<lparr>searchParams := l, query := (if s = [] then None else Some s)\<rparr>)"

text \<open>\<open>url.toString()\<close>.\<close>

definition URL_toString :: "URL \<Rightarrow> string" where
  "URL_toString url =
     beforeQuery url
     @ (case query url of None \<Rightarrow> [] | Some q \<Rightarrow> CHR ''?'' # q)
     @ (case fragment url of None \<Rightarrow> [] | Some f \<Rightarrow> CHR ''#'' # f)"

section \<open>Errors\<close>

text \<open>
  What a \<open>throw\<close> can carry.  \<open>NetworkError\<close>, \<open>ApiResponseError\<close> and
  \<open>TimeoutError\<close> are the three classes of the module; \<open>TypeError\<close>,
  \<open>SyntaxError\<close> and \<open>DOMException\<close> (with its \<open>name\<close>) are the platform's.
  The kind of an error is its constructor, as \<open>instanceof\<close> reads it.
\<close>

datatype jsval =
    JUndefined
  | JNull
  | JBool bool
  | JNum int
  | JStr string
  | JArr "jsval list"
  | JObj "(string \<times> jsval) list"

datatype exn =
    NetworkError string
  | ApiResponseError string nat jsval
  | TimeoutError string
  | TypeError string
  | SyntaxError string
  | DOMException string

section \<open>buildUrl\<close>

text \<open>
  The body of the \<open>forEach\<close> of \<open>buildUrl\<close>, for one entry of
  \<open>Object.entries(queryParams)\<close>.
\<close>

definition appendParam :: "bool \<Rightarrow> string \<times> qval \<Rightarrow> URL \<Rightarrow> URL" where
  "appendParam skipEnc entry url =
     (case entry of (key, val) \<Rightarrow>
        if val \<noteq> QUndefined \<and> val \<noteq> QNull then
          (let encodedKey = (if skipEnc then key else encodeURIComponent key);
               encodedValue = (if skipEnc then String val else encodeURIComponent (String val))
           in searchParams_append encodedKey encodedValue url)
        else url)"

text \<open>
  \<open>buildUrl(baseUrl, path, queryParams, skipURIEncoding)\<close>.  The parser behind
  \<open>new URL(path, baseUrl)\<close> is the platform's and is a parameter: \<open>None\<close> when
  it raises its \<open>TypeError\<close>.  \<open>queryParams\<close> is the list \<open>Object.entries\<close>
  gives, \<open>None\<close> when the argument is absent.
\<close>

definition buildUrl ::
  "(string \<Rightarrow> string \<Rightarrow> URL option) \<Rightarrow> string \<Rightarrow> string \<Rightarrow>
   (string \<times> qval) list option \<Rightarrow> bool \<Rightarrow> exn + string" where
  "buildUrl newURL base p qps skipEnc =
     (case newURL p base of
        None \<Rightarrow> Inl (TypeError ''Invalid URL'')
      | Some url \<Rightarrow>
          Inr (URL_toString
                 (case qps of
                    None \<Rightarrow> url
                  | Some entries \<Rightarrow> fold (appendParam skipEnc) entries url)))"

section \<open>JSON text of a value\<close>

text \<open>
  \<open>JSON.stringify\<close> on the values of \<^typ>\<open>jsval\<close>.  A string is quoted, with
  the quote, the backslash and the control characters escaped; \<open>undefined\<close>
  becomes \<open>null\<close> inside an array, drops its property inside an object, and gives
  no text at all at the top.
\<close>

definition jsonEscape :: "char \<Rightarrow> string" where
  "jsonEscape c =
     (let n = (of_char c :: nat) in
      if n = 34 then [char_of (92 :: nat), char_of (34 :: nat)]
      else if n = 92 then [char_of (92 :: nat), char_of (92 :: nat)]
      else if n = 8 then [char_of (92 :: nat), CHR ''b'']
      else if n = 12 then [char_of (92 :: nat), CHR ''f'']
      else if n = 10 then [char_of (92 :: nat), CHR ''n'']
      else if n = 13 then [char_of (92 :: nat), CHR ''r'']
      else if n = 9 then [char_of (92 :: nat), CHR ''t'']
      else if n < 32 then
        [char_of (92 :: nat), CHR ''u'', CHR ''0'', CHR ''0'',
         (if n div 16 = 0 then CHR ''0'' else CHR ''1''),
         (if n mod 16 < 10 then char_of (48 + n mod 16) else char_of (87 + n mod 16))]
      else [c])"

definition jsonQuote :: "string \<Rightarrow> string" where
  "jsonQuote s = char_of (34 :: nat) # concat (map jsonEscape s) @ [char_of (34 :: nat)]"

fun jsonText :: "jsval \<Rightarrow> string" where
  "jsonText JUndefined = ''null''"
| "jsonText JNull = ''null''"
| "jsonText (JBool b) = (if b then ''true'' else ''false'')"
| "jsonText (JNum n) = showInt n"
| "jsonText (JStr s) = jsonQuote s"
| "jsonText (JArr vs) = ''['' @ joinWith '','' (map jsonText vs) @ '']''"
| "jsonText (JObj kvs) =
     ''{'' @ joinWith '',''
               (map (\<lambda>kv. jsonQuote (fst kv) @ '':'' @ jsonText (snd kv))
                    (filter (\<lambda>kv. snd kv \<noteq> JUndefined) kvs))
     @ ''}''"

definition JSON_stringify :: "jsval \<Rightarrow> string option" where
  "JSON_stringify v = (if v = JUndefined then None else Some (jsonText v))"

text \<open>The truth value of \<open>v ? a : b\<close>.\<close>

fun truthy :: "jsval \<Rightarrow> bool" where
  "truthy JUndefined = False"
| "truthy JNull = False"
| "truthy (JBool b) = b"
| "truthy (JNum n) = (n \<noteq> 0)"
| "truthy (JStr s) = (s \<noteq> [])"
| "truthy (JArr vs) = True"
| "truthy (JObj kvs) = True"

section \<open>Responses, requests and what a call does\<close>

text \<open>
  A \<open>Response\<close> of the platform: its status, what
  \<open>headers.get("content-type")\<close> returns, and its body (\<open>None\<close> for a null
  body, which reads as the empty byte sequence).
\<close>

record Response =
  status :: nat
  contentType :: "string option"
  responseBody :: "string option"

record Request =
  url :: string
  reqMethod :: HttpMethod
  reqHeaders :: "string \<rightharpoonup> string"
  reqBody :: "string option"

datatype phase = License | Main

datatype decoding = AsJson | AsText

datatype logged = LogString string | LogValue jsval | LogResponse Response

text \<open>
  The effects of a call, in the order they happen: a line on the console, a
  request handed to \<open>fetch\<close>, the timer of a phase firing
  (\<open>controller.abort()\<close>), a read of a response body, and the four callbacks.
\<close>

datatype event =
    ConsoleDebug string logged
  | Fetch phase Request
  | Abort phase
  | BodyRead decoding
  | LicenseOnSuccess jsval
  | LicenseOnError exn
  | OnSuccess jsval
  | OnError exn

text \<open>A computation either throws or returns, and leaves its effects.\<close>

type_synonym 'a io = "(exn + 'a) \<times> event list"

definition ret :: "'a \<Rightarrow> 'a io" where
  "ret x = (Inr x, [])"

definition raise :: "exn \<Rightarrow> 'a io" where
  "raise e = (Inl e, [])"

definition lift :: "exn + 'a \<Rightarrow> 'a io" where
  "lift r = (r, [])"

definition andThen :: "'a io \<Rightarrow> ('a \<Rightarrow> 'b io) \<Rightarrow> 'b io" where
  "andThen m f =
     (case m of
        (Inl e, t) \<Rightarrow> (Inl e, t)
      | (Inr x, t) \<Rightarrow> (case f x of (r, t') \<Rightarrow> (r, t @ t')))"

definition tryCatch :: "'a io \<Rightarrow> (exn \<Rightarrow> 'a io) \<Rightarrow> 'a io" where
  "tryCatch m h =
     (case m of
        (Inr x, t) \<Rightarrow> (Inr x, t)
      | (Inl e, t) \<Rightarrow> (case h e of (r, t') \<Rightarrow> (r, t @ t')))"

text \<open>\<open>flag && console.debug(label, v)\<close>.\<close>

definition debugLog :: "bool \<Rightarrow> string \<Rightarrow> logged \<Rightarrow> unit io" where
  "debugLog flag label v = (if flag then (Inr (), [ConsoleDebug label v]) else ret ())"

text \<open>
  \<open>handler?.(x)\<close>: nothing when the handler is absent; a handler is the caller's
  code, which returns (\<open>None\<close>) or throws.
\<close>

definition invoke :: "('a \<Rightarrow> exn option) option \<Rightarrow> ('a \<Rightarrow> event) \<Rightarrow> 'a \<Rightarrow> unit io" where
  "invoke handler ev x =
     (case handler of
        None \<Rightarrow> ret ()
      | Some f \<Rightarrow> (case f x of None \<Rightarrow> (Inr (), [ev x]) | Some e \<Rightarrow> (Inl e, [ev x])))"

section \<open>Reading a response body\<close>

text \<open>
  \<open>response.json()\<close> and \<open>response.text()\<close> consume the body: each rejects with
  a \<open>TypeError\<close> when the body is not null and has been read before, and reads
  it otherwise.  The flag says whether the body has been read; the JSON decoder is
  the platform's and is a parameter.
\<close>

definition bodyBytes :: "Response \<Rightarrow> string" where
  "bodyBytes r = (case responseBody r of None \<Rightarrow> [] | Some b \<Rightarrow> b)"

definition unusable :: "Response \<Rightarrow> bool \<Rightarrow> bool" where
  "unusable r used = (case responseBody r of None \<Rightarrow> False | Some b \<Rightarrow> used)"

definition afterRead :: "Response \<Rightarrow> bool \<Rightarrow> bool" where
  "afterRead r used = (case responseBody r of None \<Rightarrow> used | Some b \<Rightarrow> True)"

definition response_json ::
  "(string \<Rightarrow> jsval option) \<Rightarrow> Response \<Rightarrow> bool \<Rightarrow> (exn + jsval) \<times> bool" where
  "response_json parse r used =
     (if unusable r used then (Inl (TypeError ''Body is unusable''), used)
      else
        ((case parse (bodyBytes r) of
            None \<Rightarrow> Inl (SyntaxError ''Unexpected token in JSON'')
          | Some v \<Rightarrow> Inr v),
         afterRead r used))"

definition response_text :: "Response \<Rightarrow> bool \<Rightarrow> (exn + jsval) \<times> bool" where
  "response_text r used =
     (if unusable r used then (Inl (TypeError ''Body is unusable''), used)
      else (Inr (JStr (bodyBytes r)), afterRead r used))"

section \<open>processResponse\<close>

definition ok :: "Response \<Rightarrow> bool" where
  "ok r = (200 \<le> status r \<and> status r \<le> 299)"

text \<open>\<open>s.includes(p)\<close>: \<open>p\<close> occurs in \<open>s\<close> as a contiguous run.\<close>

fun isPrefixOf :: "string \<Rightarrow> string \<Rightarrow> bool" where
  "isPrefixOf [] s = True"
| "isPrefixOf (c # cs) [] = False"
| "isPrefixOf (c # cs) (d # ds) = (c = d \<and> isPrefixOf cs ds)"

fun strIncludes :: "string \<Rightarrow> string \<Rightarrow> bool" where
  "strIncludes [] p = (p = [])"
| "strIncludes (c # cs) p = (isPrefixOf p (c # cs) \<or> strIncludes cs p)"

definition declaresJson :: "Response \<Rightarrow> bool" where
  "declaresJson r =
     (case contentType r of None \<Rightarrow> False | Some ct \<Rightarrow> strIncludes ct ''application/json'')"

definition failureMessage :: "Response \<Rightarrow> string" where
  "failureMessage r = ''API request failed with status '' @ showNat (status r)"

definition processResponse :: "(string \<Rightarrow> jsval option) \<Rightarrow> Response \<Rightarrow> jsval io" where
  "processResponse parse response =
     (if \<not> ok response then
        (case response_json parse response False of
           (Inr errorData, used) \<Rightarrow>
             (Inl (ApiResponseError (failureMessage response) (status response) errorData),
              [BodyRead AsJson])
         | (Inl e, used) \<Rightarrow>
             (case response_text response used of
                (Inr errorData, used') \<Rightarrow>
                  (Inl (ApiResponseError (failureMessage response) (status response) errorData),
                   [BodyRead AsJson, BodyRead AsText])
              | (Inl e', used') \<Rightarrow> (Inl e', [BodyRead AsJson, BodyRead AsText])))
      else if declaresJson response then
        (fst (response_json parse response False), [BodyRead AsJson])
      else (fst (response_text response False), [BodyRead AsText]))"

section \<open>The options of a call\<close>

text \<open>
  An optional field is an \<open>option\<close>; \<open>body\<close> is \<open>JUndefined\<close> when absent.
  \<open>queryParams\<close> holds the entries in the order \<open>Object.entries\<close> lists them.
  \<open>validateLicense\<close> has the type \<open>CommonApiParams & ResponseHandlers\<close>: the
  fields of both, here as a pair.  An absent debug flag is \<open>undefined\<close> and reads
  as false.
\<close>

record ResponseHandlers =
  onSuccess :: "(jsval \<Rightarrow> exn option) option"
  onError :: "(exn \<Rightarrow> exn option) option"

record CommonApiParams =
  path :: string
  httpMethod :: "HttpMethod option"
  headers :: "(string \<rightharpoonup> string) option"
  body :: jsval
  queryParams :: "(string \<times> qval) list option"
  skipURIEncoding :: "bool option"

record DebugOptions =
  logUrl :: bool
  logRequest :: bool
  logResponse :: bool
  logData :: bool

record ApiCallOptions = CommonApiParams +
  baseUrl :: string
  debug :: "DebugOptions option"
  responseHandlers :: "ResponseHandlers option"
  validateLicense :: "(CommonApiParams \<times> ResponseHandlers) option"
  timeout :: "nat option"

section \<open>The platform\<close>

text \<open>
  What the network does with a request: a response or a failure after some time,
  or nothing ever.  The transport may answer the two phases of a call differently.
\<close>

datatype reply = Responds nat Response | Fails nat exn | Hangs

record Platform =
  newURL :: "string \<Rightarrow> string \<Rightarrow> URL option"
  JSON_parse :: "string \<Rightarrow> jsval option"
  transport :: "phase \<Rightarrow> Request \<Rightarrow> reply"

text \<open>
  The four statements around each \<open>fetch\<close>: a fresh \<open>AbortController\<close>, a timer
  of \<open>ms\<close> that aborts it, the awaited \<open>fetch\<close> with its signal, and
  \<open>clearTimeout\<close> once \<open>fetch\<close> has settled.  A reply that comes before the
  timer settles \<open>fetch\<close>; otherwise the timer fires, the request is aborted and
  \<open>fetch\<close> rejects with the \<open>DOMException\<close> named \<open>AbortError\<close>.
\<close>

definition fetchWithTimeout :: "Platform \<Rightarrow> phase \<Rightarrow> nat \<Rightarrow> Request \<Rightarrow> Response io" where
  "fetchWithTimeout pf ph ms req =
     (case transport pf ph req of
        Responds t r \<Rightarrow>
          if t < ms then (Inr r, [Fetch ph req])
          else (Inl (DOMException ''AbortError''), [Fetch ph req, Abort ph])
      | Fails t e \<Rightarrow>
          if t < ms then (Inl e, [Fetch ph req])
          else (Inl (DOMException ''AbortError''), [Fetch ph req, Abort ph])
      | Hangs \<Rightarrow> (Inl (DOMException ''AbortError''), [Fetch ph req, Abort ph]))"

section \<open>callApi\<close>

definition orElse :: "'a option \<Rightarrow> 'a \<Rightarrow> 'a" where
  "orElse x d = (case x of None \<Rightarrow> d | Some v \<Rightarrow> v)"

definition debugFlag :: "(DebugOptions \<Rightarrow> bool) \<Rightarrow> ApiCallOptions \<Rightarrow> bool" where
  "debugFlag f params = (case debug params of None \<Rightarrow> False | Some d \<Rightarrow> f d)"

definition handlersOf :: "ApiCallOptions \<Rightarrow> ResponseHandlers" where
  "handlersOf params = orElse (responseHandlers params) \<lparr>onSuccess = None, onError = None\<rparr>"

text \<open>The second argument of the \<open>fetch\<close> of the license phase.\<close>

definition licenseRequest :: "ApiCallOptions \<Rightarrow> CommonApiParams \<Rightarrow> string \<Rightarrow> Request" where
  "licenseRequest params lic licenseUrl =
     \<lparr>url = licenseUrl,
      reqMethod = orElse (httpMethod lic) POST,
      reqHeaders =
        [''Content-Type'' \<mapsto> ''application/json'']
        ++ orElse (headers params) Map.empty
        ++ orElse (headers lic) Map.empty,
      reqBody = (if truthy (body lic) then JSON_stringify (body lic) else None)\<rparr>"

text \<open>The second argument of the \<open>fetch\<close> of the main phase.\<close>

definition mainRequest :: "ApiCallOptions \<Rightarrow> string \<Rightarrow> Request" where
  "mainRequest params u =
     \<lparr>url = u,
      reqMethod = orElse (httpMethod params) GET,
      reqHeaders =
        [''Content-Type'' \<mapsto> ''application/json'']
        ++ orElse (headers params) Map.empty,
      reqBody = (if truthy (body params) then JSON_stringify (body params) else None)\<rparr>"

text \<open>The \<open>try\<close> block of the license phase.\<close>

definition licenseAttempt ::
  "Platform \<Rightarrow> ApiCallOptions \<Rightarrow> CommonApiParams \<times> ResponseHandlers \<Rightarrow> unit io" where
  "licenseAttempt pf params vl =
     andThen (lift (buildUrl (newURL pf) (baseUrl params) (path (fst vl))
                      (queryParams (fst vl)) (orElse (skipURIEncoding (fst vl)) False)))
       (\<lambda>licenseUrl.
     andThen (debugLog (debugFlag logUrl params) ''License validation URL:''
                (LogString licenseUrl))
       (\<lambda>_.
     andThen (debugLog (debugFlag logRequest params) ''License validation request:''
                (LogValue (body (fst vl))))
       (\<lambda>_.
     andThen (fetchWithTimeout pf License (orElse (timeout params) 10000)
                (licenseRequest params (fst vl) licenseUrl))
       (\<lambda>licenseResponse.
     andThen (processResponse (JSON_parse pf) licenseResponse)
       (\<lambda>licenseData.
     invoke (onSuccess (snd vl)) LicenseOnSuccess licenseData)))))"

text \<open>The license phase: the \<open>try\<close> block and its \<open>catch\<close>.\<close>

definition licensePhase ::
  "Platform \<Rightarrow> ApiCallOptions \<Rightarrow> CommonApiParams \<times> ResponseHandlers \<Rightarrow> unit io" where
  "licensePhase pf params vl =
     tryCatch (licenseAttempt pf params vl)
       (\<lambda>err. andThen (invoke (onError (snd vl)) LicenseOnError err) (\<lambda>_. raise err))"

text \<open>The \<open>try\<close> block of the main phase.\<close>

definition mainAttempt :: "Platform \<Rightarrow> ApiCallOptions \<Rightarrow> jsval io" where
  "mainAttempt pf params =
     andThen (lift (buildUrl (newURL pf) (baseUrl params) (path params)
                      (queryParams params) (orElse (skipURIEncoding params) False)))
       (\<lambda>u.
     andThen (debugLog (debugFlag logUrl params) ''API URL:'' (LogString u))
       (\<lambda>_.
     andThen (debugLog (debugFlag logRequest params) ''API Request Body:''
                (LogValue (body params)))
       (\<lambda>_.
     andThen (fetchWithTimeout pf Main (orElse (timeout params) 10000) (mainRequest params u))
       (\<lambda>response.
     andThen (processResponse (JSON_parse pf) response)
       (\<lambda>responseData.
     andThen (debugLog (debugFlag logResponse params) ''API Response:'' (LogResponse response))
       (\<lambda>_.
     andThen (debugLog (debugFlag logData params) ''API Response Data:''
                (LogValue responseData))
       (\<lambda>_.
     andThen (invoke (onSuccess (handlersOf params)) OnSuccess responseData)
       (\<lambda>_.
     ret responseData))))))))"

text \<open>The \<open>catch\<close> block of the main phase.\<close>

definition mainCatch :: "ApiCallOptions \<Rightarrow> exn \<Rightarrow> jsval io" where
  "mainCatch params err =
     (if err = DOMException ''AbortError'' then
        (let timeoutError = TimeoutError ''Request timed out''
         in andThen (invoke (onError (handlersOf params)) OnError timeoutError)
              (\<lambda>_. raise timeoutError))
      else andThen (invoke (onError (handlersOf params)) OnError err) (\<lambda>_. raise err))"

definition mainPhase :: "Platform \<Rightarrow> ApiCallOptions \<Rightarrow> jsval io" where
  "mainPhase pf params = tryCatch (mainAttempt pf params) (mainCatch params)"

definition callApi :: "Platform \<Rightarrow> ApiCallOptions \<Rightarrow> jsval io" where
  "callApi pf params =
     (case validateLicense params of
        None \<Rightarrow> mainPhase pf params
      | Some vl \<Rightarrow> andThen (licensePhase pf params vl) (\<lambda>_. mainPhase pf params))"

section \<open>Reading a trace\<close>

fun isConsoleDebug :: "event \<Rightarrow> bool" where
  "isConsoleDebug (ConsoleDebug l v) = True"
| "isConsoleDebug ev = False"

text \<open>The requests handed to \<open>fetch\<close> in a phase, the timers that fired, and
  the decodings asked of response bodies.\<close>

fun requestsOf :: "phase \<Rightarrow> event list \<Rightarrow> Request list" where
  "requestsOf ph [] = []"
| "requestsOf ph (Fetch ph' req # evs) =
     (if ph' = ph then req # requestsOf ph evs else requestsOf ph evs)"
| "requestsOf ph (ev # evs) = requestsOf ph evs"

fun abortsOf :: "event list \<Rightarrow> phase list" where
  "abortsOf [] = []"
| "abortsOf (Abort ph # evs) = ph # abortsOf evs"
| "abortsOf (ev # evs) = abortsOf evs"

fun decodingsOf :: "event list \<Rightarrow> decoding list" where
  "decodingsOf [] = []"
| "decodingsOf (BodyRead d # evs) = d # decodingsOf evs"
| "decodingsOf (ev # evs) = decodingsOf evs"

text \<open>A computation with its console lines left out.\<close>

definition quiet :: "'a io \<Rightarrow> 'a io" where
  "quiet m = (fst m, filter (\<lambda>ev. \<not> isConsoleDebug ev) (snd m))"

text \<open>Every effect of a computation satisfies \<open>P\<close>.\<close>

definition emits :: "(event \<Rightarrow> bool) \<Rightarrow> 'a io \<Rightarrow> bool" where
  "emits P m = list_all P (snd m)"

section \<open>Example inputs\<close>

text \<open>
  A platform for the examples.  \<open>demoURL\<close> is \<open>new URL(path, base)\<close> on the two
  paths used below, which resolve against the base \<open>https://api.x.com\<close> to the
  base followed by the path; \<open>demoParse\<close> is the JSON decoder on the bodies
  used below (\<open>Not Found\<close> is not JSON).  The transport answers the license
  phase and the main phase with the two replies given.
\<close>

definition demoURL :: "string \<Rightarrow> string \<Rightarrow> URL option" where
  "demoURL p base =
     (if base = ''https://api.x.com'' \<and> (p = ''/users'' \<or> p = ''/validate-license'')
      then Some \<lparr>beforeQuery = base @ p, query = None, searchParams = [], fragment = None\<rparr>
      else None)"

definition demoParse :: "string \<Rightarrow> jsval option" where
  "demoParse s =
     (if s = ''[1,2]'' then Some (JArr [JNum 1, JNum 2])
      else if s = ''true'' then Some (JBool True)
      else None)"

definition demoPlatform :: "reply \<Rightarrow> reply \<Rightarrow> Platform" where
  "demoPlatform licenseReply mainReply =
     \<lparr>newURL = demoURL, JSON_parse = demoParse,
      transport = (\<lambda>ph req. case ph of License \<Rightarrow> licenseReply | Main \<Rightarrow> mainReply)\<rparr>"

definition okJson :: Response where
  "okJson = \<lparr>status = 200, contentType = Some ''application/json; charset=utf-8'',
             responseBody = Some ''[1,2]''\<rparr>"

definition notFoundText :: Response where
  "notFoundText = \<lparr>status = 404, contentType = Some ''text/plain'',
                   responseBody = Some ''Not Found''\<rparr>"

definition demoCall :: ApiCallOptions where
  "demoCall =
     \<lparr>path = ''/users'', httpMethod = Some POST, headers = None, body = JUndefined,
      queryParams = None, skipURIEncoding = None,
      baseUrl = ''https://api.x.com'', debug = None, responseHandlers = None,
      validateLicense = None, timeout = None\<rparr>"

definition demoLicense :: "CommonApiParams \<times> ResponseHandlers" where
  "demoLicense =
     (\<lparr>path = ''/validate-license'', httpMethod = None, headers = None,
       body = JObj [(''licenseKey'', JStr ''K'')], queryParams = None,
       skipURIEncoding = None\<rparr>,
      \<lparr>onSuccess = Some (\<lambda>v. None), onError = Some (\<lambda>e. None)\<rparr>)"

definition licensedCall :: ApiCallOptions where
  "licensedCall = demoCall\<lparr>validateLicense := Some demoLicense\<rparr>"

text \<open>A licensed call whose own handlers are present as well.\<close>

definition observedCall :: ApiCallOptions where
  "observedCall =
     licensedCall
       \<lparr>responseHandlers :=
          Some \<lparr>onSuccess = Some (\<lambda>v. None), onError = Some (\<lambda>e. None)\<rparr>\<rparr>"

text \<open>A call with headers of its own and a license request that overrides the
  content type.\<close>

definition headedLicense :: "CommonApiParams \<times> ResponseHandlers" where
  "headedLicense =
     (\<lparr>path = ''/validate-license'', httpMethod = None,
       headers = Some [''Content-Type'' \<mapsto> ''text/plain''],
       body = JUndefined, queryParams = None, skipURIEncoding = None\<rparr>,
      \<lparr>onSuccess = None, onError = None\<rparr>)"

definition headedCall :: ApiCallOptions where
  "headedCall =
     demoCall
       \<lparr>headers := Some [''Authorization'' \<mapsto> ''Bearer t''],
        validateLicense := Some headedLicense\<rparr>"

definition allFlags :: DebugOptions where
  "allFlags = \<lparr>logUrl = True, logRequest = True, logResponse = True, logData = True\<rparr>"

section \<open>Laws of the combinators\<close>

lemma fst_andThen:
  "fst (andThen m f) = (case fst m of Inl e \<Rightarrow> Inl e | Inr x \<Rightarrow> fst (f x))"
  by (cases m) (auto simp: andThen_def split: sum.splits prod.splits)

lemma snd_andThen:
  "snd (andThen m f) = (case fst m of Inl e \<Rightarrow> snd m | Inr x \<Rightarrow> snd m @ snd (f x))"
  by (cases m) (auto simp: andThen_def split: sum.splits prod.splits)

lemma fst_tryCatch:
  "fst (tryCatch m h) = (case fst m of Inl e \<Rightarrow> fst (h e) | Inr x \<Rightarrow> Inr x)"
  by (cases m) (auto simp: tryCatch_def split: sum.splits prod.splits)

lemma snd_tryCatch:
  "snd (tryCatch m h) = (case fst m of Inl e \<Rightarrow> snd m @ snd (h e) | Inr x \<Rightarrow> snd m)"
  by (cases m) (auto simp: tryCatch_def split: sum.splits prod.splits)

subsection \<open>Leaving the console lines out\<close>

lemma quiet_andThen: "quiet (andThen m f) = andThen (quiet m) (\<lambda>x. quiet (f x))"
  by (cases m) (auto simp: quiet_def andThen_def split: sum.splits prod.splits)

lemma quiet_tryCatch: "quiet (tryCatch m h) = tryCatch (quiet m) (\<lambda>e. quiet (h e))"
  by (cases m) (auto simp: quiet_def tryCatch_def split: sum.splits prod.splits)

lemma quiet_debugLog: "quiet (debugLog b l v) = ret ()"
  by (simp add: quiet_def debugLog_def ret_def)

lemma mainCatch_debug: "mainCatch (params\<lparr>debug := d\<rparr>) = mainCatch params"
  by (rule ext) (simp add: mainCatch_def handlersOf_def)

lemma quiet_mainAttempt:
  "quiet (mainAttempt pf (params\<lparr>debug := d\<rparr>)) = quiet (mainAttempt pf (params\<lparr>debug := d'\<rparr>))"
  by (simp add: mainAttempt_def quiet_andThen quiet_debugLog mainRequest_def handlersOf_def)

lemma quiet_mainPhase:
  "quiet (mainPhase pf (params\<lparr>debug := d\<rparr>)) = quiet (mainPhase pf (params\<lparr>debug := d'\<rparr>))"
  unfolding mainPhase_def quiet_tryCatch
  by (simp add: quiet_mainAttempt [where d = d and d' = d'] mainCatch_debug)

lemma quiet_licenseAttempt:
  "quiet (licenseAttempt pf (params\<lparr>debug := d\<rparr>) vl)
     = quiet (licenseAttempt pf (params\<lparr>debug := d'\<rparr>) vl)"
  by (simp add: licenseAttempt_def quiet_andThen quiet_debugLog licenseRequest_def)

lemma quiet_licensePhase:
  "quiet (licensePhase pf (params\<lparr>debug := d\<rparr>) vl)
     = quiet (licensePhase pf (params\<lparr>debug := d'\<rparr>) vl)"
  unfolding licensePhase_def quiet_tryCatch
  by (simp add: quiet_licenseAttempt [where d = d and d' = d'])

lemma quiet_callApi:
  "quiet (callApi pf (params\<lparr>debug := d\<rparr>)) = quiet (callApi pf (params\<lparr>debug := d'\<rparr>))"
proof (cases "validateLicense params")
  case None
  then show ?thesis
    by (simp add: callApi_def quiet_mainPhase [where d = d and d' = d'])
next
  case (Some vl)
  then show ?thesis
    by (simp add: callApi_def quiet_andThen quiet_mainPhase [where d = d and d' = d']
        quiet_licensePhase [where d = d and d' = d'])
qed

subsection \<open>The effects of each phase\<close>

lemma emitsD: "emits P m \<Longrightarrow> ev \<in> set (snd m) \<Longrightarrow> P ev"
  by (simp add: emits_def list_all_iff)

lemma emits_ret: "emits P (ret x)"
  by (simp add: emits_def ret_def)

lemma emits_raise: "emits P (raise e)"
  by (simp add: emits_def raise_def)

lemma emits_lift: "emits P (lift r)"
  by (simp add: emits_def lift_def)

lemma emits_andThen: "emits P m \<Longrightarrow> (\<And>x. emits P (f x)) \<Longrightarrow> emits P (andThen m f)"
  by (simp add: emits_def snd_andThen split: sum.splits)

lemma emits_tryCatch: "emits P m \<Longrightarrow> (\<And>e. emits P (h e)) \<Longrightarrow> emits P (tryCatch m h)"
  by (simp add: emits_def snd_tryCatch split: sum.splits)

lemma emits_debugLog: "P (ConsoleDebug l v) \<Longrightarrow> emits P (debugLog b l v)"
  by (simp add: emits_def debugLog_def ret_def)

lemma emits_invoke: "P (ev x) \<Longrightarrow> emits P (invoke h ev x)"
  by (simp add: emits_def invoke_def ret_def split: option.splits)

lemma emits_fetch:
  "P (Fetch ph req) \<Longrightarrow> P (Abort ph) \<Longrightarrow> emits P (fetchWithTimeout pf ph ms req)"
  by (simp add: emits_def fetchWithTimeout_def split: reply.splits)

lemma emits_processResponse: "(\<And>d. P (BodyRead d)) \<Longrightarrow> emits P (processResponse parse r)"
  by (simp add: emits_def processResponse_def split: sum.splits prod.splits)

lemma emits_licenseAttempt:
  assumes "\<And>l v. P (ConsoleDebug l v)"
    and "\<And>u. P (Fetch License (licenseRequest params (fst vl) u))"
    and "P (Abort License)" and "\<And>d. P (BodyRead d)" and "\<And>x. P (LicenseOnSuccess x)"
  shows "emits P (licenseAttempt pf params vl)"
  unfolding licenseAttempt_def
  by (intro emits_andThen emits_lift emits_debugLog emits_fetch emits_processResponse
      emits_invoke assms)

lemma emits_licensePhase:
  assumes "\<And>l v. P (ConsoleDebug l v)"
    and "\<And>u. P (Fetch License (licenseRequest params (fst vl) u))"
    and "P (Abort License)" and "\<And>d. P (BodyRead d)" and "\<And>x. P (LicenseOnSuccess x)"
    and "\<And>x. P (LicenseOnError x)"
  shows "emits P (licensePhase pf params vl)"
  unfolding licensePhase_def
  by (intro emits_tryCatch emits_licenseAttempt emits_andThen emits_invoke emits_raise assms)

lemma emits_mainAttempt:
  assumes "\<And>l v. P (ConsoleDebug l v)" and "\<And>u. P (Fetch Main (mainRequest params u))"
    and "P (Abort Main)" and "\<And>d. P (BodyRead d)" and "\<And>x. P (OnSuccess x)"
  shows "emits P (mainAttempt pf params)"
  unfolding mainAttempt_def
  by (intro emits_andThen emits_lift emits_debugLog emits_fetch emits_processResponse
      emits_invoke emits_ret assms)

lemma emits_mainCatch:
  assumes "\<And>x. P (OnError x)"
  shows "emits P (mainCatch params e)"
  unfolding mainCatch_def Let_def
  by (auto intro!: emits_andThen emits_invoke emits_raise assms)

lemma emits_mainPhase:
  assumes "\<And>l v. P (ConsoleDebug l v)" and "\<And>u. P (Fetch Main (mainRequest params u))"
    and "P (Abort Main)" and "\<And>d. P (BodyRead d)" and "\<And>x. P (OnSuccess x)"
    and "\<And>x. P (OnError x)"
  shows "emits P (mainPhase pf params)"
  unfolding mainPhase_def
  by (intro emits_tryCatch emits_mainAttempt emits_mainCatch assms)

subsection \<open>How the phases compose\<close>

lemma callApi_license_fails:
  assumes "validateLicense params = Some vl" and "fst (licensePhase pf params vl) = Inl e"
  shows "callApi pf params = (Inl e, snd (licensePhase pf params vl))"
  using assms by (simp add: callApi_def prod_eq_iff fst_andThen snd_andThen)

lemma callApi_license_passes:
  assumes "validateLicense params = Some vl" and "fst (licensePhase pf params vl) = Inr x"
  shows "callApi pf params
         = (fst (mainPhase pf params), snd (licensePhase pf params vl) @ snd (mainPhase pf params))"
  using assms by (simp add: callApi_def prod_eq_iff fst_andThen snd_andThen)

lemma licensePhase_fails:
  assumes "fst (licenseAttempt pf params vl) = Inl e"
  shows "licensePhase pf params vl
         = (case onError (snd vl) of
              None \<Rightarrow> (Inl e, snd (licenseAttempt pf params vl))
            | Some f \<Rightarrow> (case f e of None \<Rightarrow> Inl e | Some e' \<Rightarrow> Inl e',
                        snd (licenseAttempt pf params vl) @ [LicenseOnError e]))"
  using assms
  by (cases "licenseAttempt pf params vl")
     (simp add: licensePhase_def tryCatch_def andThen_def invoke_def raise_def ret_def
        split: prod.splits sum.splits option.splits)

lemma licensePhase_passes:
  assumes "fst (licenseAttempt pf params vl) = Inr x"
  shows "licensePhase pf params vl = licenseAttempt pf params vl"
  using assms
  by (cases "licenseAttempt pf params vl") (simp add: licensePhase_def tryCatch_def)




section \<open>Debug flags\<close>

text \<open>
  Claim C9.  For a fixed platform and fixed options otherwise, the outcome of
  \<open>callApi\<close> (the value it returns or the error it raises) is the same whatever
  the debug options are, and so is every effect of the call but the console
  lines: the requests sent, the bodies read and the handlers invoked.  The debug
  options range over all sixteen settings of the four flags and over their
  absence.
\<close>

theorem debug_flags_change_nothing:
  "fst (callApi pf (params\<lparr>debug := d\<rparr>)) = fst (callApi pf (params\<lparr>debug := d'\<rparr>))
   \<and> filter (\<lambda>ev. \<not> isConsoleDebug ev) (snd (callApi pf (params\<lparr>debug := d\<rparr>)))
     = filter (\<lambda>ev. \<not> isConsoleDebug ev) (snd (callApi pf (params\<lparr>debug := d'\<rparr>)))"
  using quiet_callApi [where d = d and d' = d' and pf = pf and params = params]
  by (simp add: quiet_def)

text \<open>With all four flags set the example call logs four lines and returns what
  it returns with no flag set.\<close>

theorem debug_flags_change_nothing_witness:
  "fst (callApi (demoPlatform Hangs (Responds 5 okJson)) (demoCall\<lparr>debug := Some allFlags\<rparr>))
     = Inr (JArr [JNum 1, JNum 2])
   \<and> fst (callApi (demoPlatform Hangs (Responds 5 okJson)) (demoCall\<lparr>debug := None\<rparr>))
     = Inr (JArr [JNum 1, JNum 2])
   \<and> filter (\<lambda>ev. \<not> isConsoleDebug ev)
        (snd (callApi (demoPlatform Hangs (Responds 5 okJson))
                (demoCall\<lparr>debug := Some allFlags\<rparr>)))
     = filter (\<lambda>ev. \<not> isConsoleDebug ev)
        (snd (callApi (demoPlatform Hangs (Responds 5 okJson)) (demoCall\<lparr>debug := None\<rparr>)))
   \<and> length (filter isConsoleDebug
        (snd (callApi (demoPlatform Hangs (Responds 5 okJson))
                (demoCall\<lparr>debug := Some allFlags\<rparr>))))
     = 4"
proof -
  have loud: "fst (callApi (demoPlatform Hangs (Responds 5 okJson))
                 (demoCall\<lparr>debug := Some allFlags\<rparr>)) = Inr (JArr [JNum 1, JNum 2])"
    by code_simp
  have four: "length (filter isConsoleDebug
        (snd (callApi (demoPlatform Hangs (Responds 5 okJson))
                (demoCall\<lparr>debug := Some allFlags\<rparr>))))
     = 4"
    by code_simp
  from debug_flags_change_nothing
         [where pf = "demoPlatform Hangs (Responds 5 okJson)" and params = demoCall
            and d = "Some allFlags" and d' = None] loud four
  show ?thesis by simp
qed

section \<open>Decoding a successful response\<close>

lemma isPrefixOf_iff: "isPrefixOf p s \<longleftrightarrow> (\<exists>b. s = p @ b)"
  by (induction p s rule: isPrefixOf.induct) auto

lemma strIncludes_iff: "strIncludes s p \<longleftrightarrow> (\<exists>a b. s = a @ p @ b)"
proof (induction s)
  case Nil
  then show ?case by simp
next
  case (Cons c cs)
  show ?case
  proof
    assume "strIncludes (c # cs) p"
    then consider "isPrefixOf p (c # cs)" | "strIncludes cs p" by auto
    then show "\<exists>a b. c # cs = a @ p @ b"
    proof cases
      case 1
      then obtain b where "c # cs = p @ b" by (auto simp: isPrefixOf_iff)
      then have "c # cs = [] @ p @ b" by simp
      then show ?thesis by blast
    next
      case 2
      with Cons.IH obtain a b where "cs = a @ p @ b" by blast
      then have "c # cs = (c # a) @ p @ b" by simp
      then show ?thesis by blast
    qed
  next
    assume "\<exists>a b. c # cs = a @ p @ b"
    then obtain a b where ab: "c # cs = a @ p @ b" by blast
    show "strIncludes (c # cs) p"
    proof (cases a)
      case Nil
      with ab have "isPrefixOf p (c # cs)" by (auto simp: isPrefixOf_iff)
      then show ?thesis by simp
    next
      case (Cons x xs)
      with ab have "cs = xs @ p @ b" by simp
      with Cons.IH have "strIncludes cs p" by blast
      then show ?thesis by simp
    qed
  qed
qed

lemma declaresJson_iff:
  "declaresJson r \<longleftrightarrow> (\<exists>a b. contentType r = Some (a @ ''application/json'' @ b))"
  by (auto simp: declaresJson_def strIncludes_iff split: option.splits)






section \<open>A failing license phase\<close>



section \<open>Which handlers a failure reaches\<close>

text \<open>
  Claim C10.  When the \<open>try\<close> block of the license phase throws \<open>e\<close>, neither
  handler of \<open>responseHandlers\<close> is invoked anywhere in the call, and the
  \<open>onError\<close> of the license configuration, when there is one, is invoked with
  \<open>e\<close>.  Conversely the main phase never invokes a handler of the license
  configuration; and when the call fails in its main phase (there is no license
  configuration, or the license phase has returned), the call raises the error of
  the main phase and the \<open>onError\<close> of the license configuration is invoked
  nowhere in the call.
\<close>

theorem handlers_observe_their_own_phase:
  "(validateLicense params = Some vl \<and> fst (licenseAttempt pf params vl) = Inl e \<longrightarrow>
      (\<forall>x. OnSuccess x \<notin> set (snd (callApi pf params)))
      \<and> (\<forall>x. OnError x \<notin> set (snd (callApi pf params)))
      \<and> (\<forall>f. onError (snd vl) = Some f \<longrightarrow> LicenseOnError e \<in> set (snd (callApi pf params))))
   \<and> (\<forall>x. LicenseOnSuccess x \<notin> set (snd (mainPhase pf params)))
   \<and> (\<forall>x. LicenseOnError x \<notin> set (snd (mainPhase pf params)))
   \<and> ((validateLicense params = None
         \<or> (validateLicense params = Some vl \<and> fst (licensePhase pf params vl) = Inr ()))
        \<and> fst (mainPhase pf params) = Inl e \<longrightarrow>
      fst (callApi pf params) = Inl e
      \<and> (\<forall>x. LicenseOnError x \<notin> set (snd (callApi pf params))))"
proof -
  have lic: "emits (\<lambda>ev. (\<forall>x. ev \<noteq> OnSuccess x) \<and> (\<forall>x. ev \<noteq> OnError x))
               (licensePhase pf params vl)"
    by (rule emits_licensePhase) simp_all
  have main: "emits (\<lambda>ev. (\<forall>x. ev \<noteq> LicenseOnSuccess x) \<and> (\<forall>x. ev \<noteq> LicenseOnError x))
                (mainPhase pf params)"
    by (rule emits_mainPhase) simp_all
  have attempt: "emits (\<lambda>ev. \<forall>x. ev \<noteq> LicenseOnError x) (licenseAttempt pf params vl)"
    by (rule emits_licenseAttempt) simp_all
  have first: "(\<forall>x. OnSuccess x \<notin> set (snd (callApi pf params)))
      \<and> (\<forall>x. OnError x \<notin> set (snd (callApi pf params)))
      \<and> (\<forall>f. onError (snd vl) = Some f \<longrightarrow> LicenseOnError e \<in> set (snd (callApi pf params)))"
    if v: "validateLicense params = Some vl" and a: "fst (licenseAttempt pf params vl) = Inl e"
  proof -
    have ph: "licensePhase pf params vl
         = (case onError (snd vl) of
              None \<Rightarrow> (Inl e, snd (licenseAttempt pf params vl))
            | Some f \<Rightarrow> (case f e of None \<Rightarrow> Inl e | Some e' \<Rightarrow> Inl e',
                        snd (licenseAttempt pf params vl) @ [LicenseOnError e]))"
      by (rule licensePhase_fails [OF a])
    then obtain e' where e': "fst (licensePhase pf params vl) = Inl e'"
      by (auto split: option.splits)
    have call: "snd (callApi pf params) = snd (licensePhase pf params vl)"
      using callApi_license_fails [OF v e'] by simp
    have "\<forall>f. onError (snd vl) = Some f \<longrightarrow> LicenseOnError e \<in> set (snd (callApi pf params))"
      using ph call by (auto split: option.splits)
    moreover have "(\<forall>x. OnSuccess x \<notin> set (snd (callApi pf params)))
      \<and> (\<forall>x. OnError x \<notin> set (snd (callApi pf params)))"
      using call lic by (auto dest: emitsD)
    ultimately show ?thesis by blast
  qed
  have second: "(\<forall>x. LicenseOnSuccess x \<notin> set (snd (mainPhase pf params)))
      \<and> (\<forall>x. LicenseOnError x \<notin> set (snd (mainPhase pf params)))"
    using main by (auto dest: emitsD)
  have third_none: "fst (callApi pf params) = Inl e
      \<and> (\<forall>x. LicenseOnError x \<notin> set (snd (callApi pf params)))"
    if "validateLicense params = None" and "fst (mainPhase pf params) = Inl e"
    using that second by (simp add: callApi_def)
  have third_some: "fst (callApi pf params) = Inl e
      \<and> (\<forall>x. LicenseOnError x \<notin> set (snd (callApi pf params)))"
    if v: "validateLicense params = Some vl" and p: "fst (licensePhase pf params vl) = Inr ()"
      and m: "fst (mainPhase pf params) = Inl e"
  proof -
    have "fst (licenseAttempt pf params vl) = Inr ()"
    proof (cases "fst (licenseAttempt pf params vl)")
      case (Inl a)
      from licensePhase_fails [OF Inl] p show ?thesis by (auto split: option.splits)
    next
      case (Inr b)
      then show ?thesis by simp
    qed
    then have "licensePhase pf params vl = licenseAttempt pf params vl"
      by (rule licensePhase_passes)
    with attempt have "\<forall>x. LicenseOnError x \<notin> set (snd (licensePhase pf params vl))"
      by (auto dest: emitsD)
    with callApi_license_passes [OF v p] m second show ?thesis by auto
  qed
  from first second third_none third_some show ?thesis by blast
qed

text \<open>The example call with handlers on both levels: with the license endpoint
  down only the license handler is invoked; with the license endpoint up and
  the main endpoint down the license \<open>onError\<close> is not.\<close>

theorem handlers_observe_their_own_phase_witness:
  "validateLicense observedCall = Some demoLicense
   \<and> fst (licenseAttempt (demoPlatform (Fails 3 (TypeError ''Failed to fetch'')) (Responds 5 okJson))
            observedCall demoLicense) = Inl (TypeError ''Failed to fetch'')
   \<and> (\<forall>x. OnSuccess x
          \<notin> set (snd (callApi (demoPlatform (Fails 3 (TypeError ''Failed to fetch''))
                                  (Responds 5 okJson)) observedCall)))
   \<and> (\<forall>x. OnError x
          \<notin> set (snd (callApi (demoPlatform (Fails 3 (TypeError ''Failed to fetch''))
                                  (Responds 5 okJson)) observedCall)))
   \<and> LicenseOnError (TypeError ''Failed to fetch'')
        \<in> set (snd (callApi (demoPlatform (Fails 3 (TypeError ''Failed to fetch''))
                                  (Responds 5 okJson)) observedCall))
   \<and> fst (licensePhase (demoPlatform (Responds 5 okJson) (Fails 3 (TypeError ''Failed to fetch'')))
            observedCall demoLicense) = Inr ()
   \<and> fst (mainPhase (demoPlatform (Responds 5 okJson) (Fails 3 (TypeError ''Failed to fetch'')))
            observedCall) = Inl (TypeError ''Failed to fetch'')
   \<and> fst (callApi (demoPlatform (Responds 5 okJson) (Fails 3 (TypeError ''Failed to fetch'')))
            observedCall) = Inl (TypeError ''Failed to fetch'')
   \<and> (\<forall>x. LicenseOnError x
          \<notin> set (snd (callApi (demoPlatform (Responds 5 okJson)
                                  (Fails 3 (TypeError ''Failed to fetch''))) observedCall)))"
proof -
  let ?down = "demoPlatform (Fails 3 (TypeError ''Failed to fetch'')) (Responds 5 okJson)"
  let ?up = "demoPlatform (Responds 5 okJson) (Fails 3 (TypeError ''Failed to fetch''))"
  let ?e = "TypeError ''Failed to fetch''"
  have lic: "validateLicense observedCall = Some demoLicense"
    by (simp add: observedCall_def licensedCall_def)
  have handler: "onError (snd demoLicense) = Some (\<lambda>e. None)"
    by (simp add: demoLicense_def)
  have fails: "fst (licenseAttempt ?down observedCall demoLicense) = Inl ?e"
    by code_simp
  have passes: "fst (licensePhase ?up observedCall demoLicense) = Inr ()"
    by code_simp
  have main: "fst (mainPhase ?up observedCall) = Inl ?e"
    by code_simp
  from handlers_observe_their_own_phase
         [where params = observedCall and vl = demoLicense and pf = ?down and e = ?e]
       lic fails handler
  have a: "(\<forall>x. OnSuccess x \<notin> set (snd (callApi ?down observedCall)))
         \<and> (\<forall>x. OnError x \<notin> set (snd (callApi ?down observedCall)))
         \<and> LicenseOnError ?e \<in> set (snd (callApi ?down observedCall))"
    by blast
  from handlers_observe_their_own_phase
         [where params = observedCall and vl = demoLicense and pf = ?up and e = ?e]
       lic passes main
  have b: "fst (callApi ?up observedCall) = Inl ?e
         \<and> (\<forall>x. LicenseOnError x \<notin> set (snd (callApi ?up observedCall)))"
    by blast
  from lic fails passes main a b show ?thesis by blast
qed

section \<open>The headers of the two requests\<close>

text \<open>
  Claim C8.  Every request of the license phase that a call hands to \<open>fetch\<close>
  carries, under each name, the value the license configuration's headers give
  it, else the value the call's own headers give it, else \<open>application/json\<close>
  for \<open>Content-Type\<close> and nothing for any other name.  Every request of the
  main phase carries the value the call's own headers give, else
  \<open>application/json\<close> for \<open>Content-Type\<close> and nothing otherwise.  So
  \<open>Content-Type: application/json\<close> is on every request, with or without a
  body, unless a later set of headers has an entry of that name.
\<close>

theorem request_headers_are_merged:
  "(Fetch License req \<in> set (snd (callApi pf params)) \<longrightarrow>
      (\<exists>vl. validateLicense params = Some vl
         \<and> (\<forall>k. reqHeaders req k =
               (case orElse (headers (fst vl)) Map.empty k of
                  Some v \<Rightarrow> Some v
                | None \<Rightarrow>
                    (case orElse (headers params) Map.empty k of
                       Some v \<Rightarrow> Some v
                     | None \<Rightarrow>
                         if k = ''Content-Type'' then Some ''application/json'' else None)))))
   \<and> (Fetch Main req \<in> set (snd (callApi pf params)) \<longrightarrow>
        (\<forall>k. reqHeaders req k =
           (case orElse (headers params) Map.empty k of
              Some v \<Rightarrow> Some v
            | None \<Rightarrow> if k = ''Content-Type'' then Some ''application/json'' else None)))"
proof -
  let ?L = "\<lambda>vl r. \<forall>k. reqHeaders r k =
               (case orElse (headers (fst vl)) Map.empty k of
                  Some v \<Rightarrow> Some v
                | None \<Rightarrow>
                    (case orElse (headers params) Map.empty k of
                       Some v \<Rightarrow> Some v
                     | None \<Rightarrow>
                         if k = ''Content-Type'' then Some ''application/json'' else None))"
  let ?M = "\<lambda>r. \<forall>k. reqHeaders r k =
           (case orElse (headers params) Map.empty k of
              Some v \<Rightarrow> Some v
            | None \<Rightarrow> if k = ''Content-Type'' then Some ''application/json'' else None)"
  have lic: "emits (\<lambda>ev. \<forall>r. (ev = Fetch License r \<longrightarrow> ?L vl r) \<and> ev \<noteq> Fetch Main r)
               (licensePhase pf params vl)" for vl
    by (rule emits_licensePhase)
       (simp_all add: licenseRequest_def map_add_def split: option.splits)
  have main: "emits (\<lambda>ev. \<forall>r. (ev = Fetch Main r \<longrightarrow> ?M r) \<and> ev \<noteq> Fetch License r)
                (mainPhase pf params)"
    by (rule emits_mainPhase) (simp_all add: mainRequest_def map_add_def split: option.splits)
  have m1: "?M r" if "Fetch Main r \<in> set (snd (mainPhase pf params))" for r
    using emitsD [OF main that] by blast
  have m2: "Fetch License r \<notin> set (snd (mainPhase pf params))" for r
    using emitsD [OF main, of "Fetch License r"] by blast
  have l1: "?L vl r" if "Fetch License r \<in> set (snd (licensePhase pf params vl))" for r vl
    using emitsD [OF lic that] by blast
  have l2: "Fetch Main r \<notin> set (snd (licensePhase pf params vl))" for r vl
    using emitsD [OF lic, of "Fetch Main r"] by blast
  show ?thesis
  proof (cases "validateLicense params")
    case None
    then have "callApi pf params = mainPhase pf params" by (simp add: callApi_def)
    with m1 m2 show ?thesis by simp
  next
    case (Some vl)
    have sub: "set (snd (callApi pf params))
            \<subseteq> set (snd (licensePhase pf params vl)) \<union> set (snd (mainPhase pf params))"
      using Some by (auto simp: callApi_def snd_andThen split: sum.splits)
    have a: "?L vl req" if "Fetch License req \<in> set (snd (callApi pf params))"
      using that sub m2 l1 by blast
    have b: "?M req" if "Fetch Main req \<in> set (snd (callApi pf params))"
      using that sub m1 l2 by blast
    from a b Some show ?thesis by simp
  qed
qed

lemma headedCall_trace:
  "snd (callApi (demoPlatform (Responds 5 okJson) (Responds 5 okJson)) headedCall)
     = [Fetch License
          (licenseRequest headedCall (fst headedLicense) ''https://api.x.com/validate-license''),
        BodyRead AsJson,
        Fetch Main (mainRequest headedCall ''https://api.x.com/users''),
        BodyRead AsJson]"
  by (simp add: callApi_def licensePhase_def licenseAttempt_def mainPhase_def mainAttempt_def
      headedCall_def headedLicense_def demoCall_def demoPlatform_def demoURL_def demoParse_def
      okJson_def fst_andThen snd_andThen fst_tryCatch snd_tryCatch lift_def buildUrl_def
      URL_toString_def orElse_def debugLog_def debugFlag_def ret_def fetchWithTimeout_def
      processResponse_def ok_def declaresJson_def response_json_def unusable_def bodyBytes_def
      invoke_def handlersOf_def)

text \<open>The example call sends \<open>Authorization\<close> on both requests; its license
  request carries the content type the license configuration sets, its main
  request the default one.\<close>

theorem request_headers_are_merged_witness:
  "Fetch License
      (licenseRequest headedCall (fst headedLicense) ''https://api.x.com/validate-license'')
     \<in> set (snd (callApi (demoPlatform (Responds 5 okJson) (Responds 5 okJson)) headedCall))
   \<and> reqHeaders (licenseRequest headedCall (fst headedLicense)
         ''https://api.x.com/validate-license'') ''Content-Type'' = Some ''text/plain''
   \<and> reqHeaders (licenseRequest headedCall (fst headedLicense)
         ''https://api.x.com/validate-license'') ''Authorization'' = Some ''Bearer t''
   \<and> Fetch Main (mainRequest headedCall ''https://api.x.com/users'')
     \<in> set (snd (callApi (demoPlatform (Responds 5 okJson) (Responds 5 okJson)) headedCall))
   \<and> reqHeaders (mainRequest headedCall ''https://api.x.com/users'') ''Content-Type''
       = Some ''application/json''
   \<and> reqHeaders (mainRequest headedCall ''https://api.x.com/users'') ''Authorization''
       = Some ''Bearer t''"
proof -
  let ?pf = "demoPlatform (Responds 5 okJson) (Responds 5 okJson)"
  let ?L = "licenseRequest headedCall (fst headedLicense) ''https://api.x.com/validate-license''"
  let ?M = "mainRequest headedCall ''https://api.x.com/users''"
  have inL: "Fetch License ?L \<in> set (snd (callApi ?pf headedCall))"
    by (simp add: headedCall_trace)
  have inM: "Fetch Main ?M \<in> set (snd (callApi ?pf headedCall))"
    by (simp add: headedCall_trace)
  from request_headers_are_merged [where req = ?L and pf = ?pf and params = headedCall] inL
  have L: "reqHeaders ?L ''Content-Type'' = Some ''text/plain''
        \<and> reqHeaders ?L ''Authorization'' = Some ''Bearer t''"
    by (auto simp: headedCall_def headedLicense_def demoCall_def orElse_def)
  from request_headers_are_merged [where req = ?M and pf = ?pf and params = headedCall] inM
  have M: "reqHeaders ?M ''Content-Type'' = Some ''application/json''
        \<and> reqHeaders ?M ''Authorization'' = Some ''Bearer t''"
    by (auto simp: headedCall_def headedLicense_def demoCall_def orElse_def)
  from inL inM L M show ?thesis by blast
qed

section \<open>Where the code departs from its description\<close>

subsection \<open>A timeout in the license phase\<close>

text \<open>
  Claim C1 has a license request that outlasts the timeout end in a
  \<open>TimeoutError\<close>.  In the example the license endpoint never answers, or
  answers after 15000 with the default timeout of 10000: the timer fires and the
  request is aborted, but the call raises the platform's \<open>DOMException\<close> named
  \<open>AbortError\<close> as it is.  The same silence in the main phase is raised as a
  \<open>TimeoutError\<close>: only the \<open>catch\<close> of the main phase converts.
\<close>

theorem license_timeout_raises_raw_abort:
  "fst (callApi (demoPlatform Hangs (Responds 5 okJson)) licensedCall)
     = Inl (DOMException ''AbortError'')
   \<and> abortsOf (snd (callApi (demoPlatform Hangs (Responds 5 okJson)) licensedCall)) = [License]
   \<and> fst (callApi (demoPlatform (Responds 15000 okJson) (Responds 5 okJson)) licensedCall)
     = Inl (DOMException ''AbortError'')
   \<and> fst (callApi (demoPlatform Hangs Hangs) demoCall) = Inl (TimeoutError ''Request timed out'')"
  by code_simp

subsection \<open>A body that is falsy\<close>

lemma falsy_body_is_dropped:
  "\<not> truthy (body params) \<Longrightarrow> reqBody (mainRequest params u) = None"
  by (simp add: mainRequest_def)

lemma truthy_body_is_serialized:
  "truthy (body params) \<Longrightarrow> reqBody (mainRequest params u) = Some (jsonText (body params))"
  by (cases "body params") (auto simp: mainRequest_def JSON_stringify_def)

text \<open>
  Claim C2 has every body that is not absent serialized and sent, \<open>0\<close>,
  \<open>false\<close> and the empty string included.  The test of both requests is the
  truth value of the body: with the body \<open>0\<close>, \<open>false\<close>, \<open>""\<close> or \<open>null\<close> the main
  request of the example goes out with no body, though each has a JSON text, and
  so does the license request with the body \<open>0\<close>.
\<close>

theorem falsy_body_is_not_sent:
  "map reqBody (requestsOf Main (snd (callApi (demoPlatform Hangs (Responds 5 okJson))
          (demoCall\<lparr>body := JNum 0\<rparr>)))) = [None]
   \<and> JSON_stringify (JNum 0) = Some ''0''
   \<and> map reqBody (requestsOf Main (snd (callApi (demoPlatform Hangs (Responds 5 okJson))
          (demoCall\<lparr>body := JBool False\<rparr>)))) = [None]
   \<and> JSON_stringify (JBool False) = Some ''false''
   \<and> map reqBody (requestsOf Main (snd (callApi (demoPlatform Hangs (Responds 5 okJson))
          (demoCall\<lparr>body := JStr []\<rparr>)))) = [None]
   \<and> JSON_stringify (JStr []) = Some [CHR 0x22, CHR 0x22]
   \<and> map reqBody (requestsOf Main (snd (callApi (demoPlatform Hangs (Responds 5 okJson))
          (demoCall\<lparr>body := JNull\<rparr>)))) = [None]
   \<and> JSON_stringify JNull = Some ''null''
   \<and> map reqBody (requestsOf License (snd (callApi (demoPlatform (Responds 5 okJson) Hangs)
          (demoCall\<lparr>validateLicense :=
             Some ((fst demoLicense)\<lparr>body := JNum 0\<rparr>, snd demoLicense)\<rparr>))))
       = [None]"
  by code_simp

subsection \<open>A transport that fails\<close>

text \<open>
  Claim C3 has a failure of the transport raised as a \<open>NetworkError\<close>.  The
  module never constructs one: in the example the connection fails with the
  platform's \<open>TypeError\<close> and that \<open>TypeError\<close> is what the call raises.
\<close>

theorem transport_failure_is_not_a_NetworkError:
  "fst (callApi (demoPlatform Hangs (Fails 3 (TypeError ''Failed to fetch''))) demoCall)
     = Inl (TypeError ''Failed to fetch'')"
  by code_simp

subsection \<open>Query parameters are encoded again\<close>

text \<open>The scenario of the specification: plain names and numbers come out as
  they are.\<close>

lemma buildUrl_plain_parameters:
  "buildUrl demoURL ''https://api.x.com'' ''/users''
     (Some [(''page'', QNum 1), (''limit'', QNum 10), (''cursor'', QUndefined), (''q'', QNull)])
     False
   = Inr ''https://api.x.com/users?page=1&limit=10''"
  by code_simp

text \<open>
  Claim C4 has each name and value percent-encoded once when \<open>skipEncoding\<close> is
  false and inserted verbatim when it is true.  \<open>searchParams.append\<close> encodes
  what it is given once more when the query is written: the value \<open>a b\<close>,
  which \<open>encodeURIComponent\<close> turns into \<open>a%20b\<close>, is in the URL as
  \<open>a%2520b\<close>, and with \<open>skipEncoding\<close> it is in the URL as \<open>a+b\<close>.
\<close>

theorem query_is_encoded_twice:
  "encodeURIComponent ''a b'' = ''a%20b''
   \<and> buildUrl demoURL ''https://api.x.com'' ''/users'' (Some [(''q'', QStr ''a b'')]) False
       = Inr ''https://api.x.com/users?q=a%2520b''
   \<and> buildUrl demoURL ''https://api.x.com'' ''/users'' (Some [(''q'', QStr ''a b'')]) True
       = Inr ''https://api.x.com/users?q=a+b''"
  by code_simp

subsection \<open>The text fallback of a failed response\<close>

lemma failed_response_with_json:
  assumes "\<not> ok r" and "parse (bodyBytes r) = Some v"
  shows "fst (processResponse parse r) = Inl (ApiResponseError (failureMessage r) (status r) v)"
  using assms
  by (simp add: processResponse_def response_json_def unusable_def split: option.splits)

lemma failed_response_without_json:
  assumes "\<not> ok r" and "responseBody r = Some b" and "parse b = None"
  shows "fst (processResponse parse r) = Inl (TypeError ''Body is unusable'')"
  using assms
  by (simp add: processResponse_def response_json_def response_text_def unusable_def
      afterRead_def bodyBytes_def)

text \<open>
  Claim C5 has a failed response whose body is not JSON raised as a Response
  Error carrying the body as text.  \<open>response.json()\<close> has read the body by the
  time it rejects, so the \<open>response.text()\<close> of the \<open>catch\<close> rejects too: for
  status 404 with the body \<open>Not Found\<close>, \<open>processResponse\<close> asks for JSON,
  then for text, and throws the \<open>TypeError\<close> of the second read, which is what
  the call raises.
\<close>

theorem text_fallback_fails:
  "fst (processResponse demoParse notFoundText) = Inl (TypeError ''Body is unusable'')
   \<and> decodingsOf (snd (processResponse demoParse notFoundText)) = [AsJson, AsText]
   \<and> fst (callApi (demoPlatform Hangs (Responds 5 notFoundText)) demoCall)
       = Inl (TypeError ''Body is unusable'')"
  by code_simp

end
